theory Spec2Isabelle
  imports Complex_Main
begin

section \<open>Data model of the game client\<close>

text \<open>
  The client of \<^verbatim>\<open>src/game.js\<close> is one object, \<^verbatim>\<open>GameClient\<close>, whose fields are
  mutated by keyboard listeners and by the websocket's message handler. The model is a
  record of those fields, and every method becomes a function from the record to the
  updated record. JavaScript numbers are modelled as real numbers (coordinates and sizes
  are far from the range where double precision rounds); strings stay strings; an object
  used as a dictionary is a map; \<^verbatim>\<open>null\<close> and \<^verbatim>\<open>undefined\<close> are \<open>None\<close>.
\<close>

record player =
  player_id :: string
  player_x :: real
  player_y :: real
  facing :: string
  animationFrame :: "nat option"
  username :: string
  avatar :: string

record avatarData =
  avatar_name :: string
  frames :: "string \<rightharpoonup> string list"

text \<open>The \<^verbatim>\<open>readyState\<close> of a websocket.\<close>

datatype readyState = CONNECTING | OPEN | CLOSING | CLOSED

text \<open>
  What the client passes to \<^verbatim>\<open>ws.send\<close>: the join request, a move command with its
  direction (a direction that is \<^verbatim>\<open>undefined\<close> is dropped by \<^verbatim>\<open>JSON.stringify\<close>, hence
  the option) and the stop command.
\<close>

datatype out_message = Join string | Move "string option" | Stop

datatype console_entry = ConsoleLog string | ConsoleError string string

text \<open>
  The messages of the server, by their \<^verbatim>\<open>action\<close> tag. \<open>JoinGame\<close> carries
  \<^verbatim>\<open>success\<close>, \<^verbatim>\<open>playerId\<close>, \<^verbatim>\<open>avatars\<close>, \<^verbatim>\<open>players\<close> and \<^verbatim>\<open>error\<close>. The payload of
  \<open>PlayersMoved\<close> is the list of the object's keys, in the order of
  \<^verbatim>\<open>Object.keys\<close>, each with its value, \<open>None\<close> for \<^verbatim>\<open>null\<close>.
\<close>

datatype message =
    JoinGame bool string "string \<rightharpoonup> avatarData" "string \<rightharpoonup> player" string
  | PlayersMoved "(string \<times> player option) list"
  | PlayerJoined player avatarData
  | PlayerLeft string
  | OtherAction string

text \<open>
  The fields of \<^verbatim>\<open>GameClient\<close>. \<open>canvasWidth\<close> and \<open>canvasHeight\<close> are
  \<^verbatim>\<open>this.canvas.width\<close> and \<^verbatim>\<open>this.canvas.height\<close>; \<open>activeKeys\<close> is the
  \<^verbatim>\<open>Set\<close> of held keys as the list of its elements in insertion order. Three fields
  record the effects on the outside: \<open>sent\<close> is the sequence of messages handed to
  \<^verbatim>\<open>ws.send\<close>, \<open>drawCalls\<close> counts the invocations of \<^verbatim>\<open>draw()\<close>, and \<open>console\<close>
  is what was written to the console.
\<close>

record client =
  worldWidth :: real
  worldHeight :: real
  myPlayerId :: "string option"
  myPlayer :: "player option"
  allPlayers :: "string \<rightharpoonup> player"
  avatars :: "string \<rightharpoonup> avatarData"
  viewportX :: real
  viewportY :: real
  activeKeys :: "string list"
  currentDirection :: "string option"
  ws :: "readyState option"
  canvasWidth :: real
  canvasHeight :: real
  sent :: "out_message list"
  drawCalls :: nat
  console :: "console_entry list"

section \<open>Viewport\<close>

text \<open>\<^verbatim>\<open>updateViewport\<close>, \<^verbatim>\<open>src/game.js\<close> lines 222-239.\<close>

definition updateViewport :: "client \<Rightarrow> client" where
  "updateViewport s =
     (case myPlayer s of
        None \<Rightarrow> s
      | Some p \<Rightarrow>
          let centerX = canvasWidth s / 2;
              centerY = canvasHeight s / 2;
              newViewportX = player_x p - centerX;
              newViewportY = player_y p - centerY;
              clampedX = max 0 (min newViewportX (worldWidth s - canvasWidth s));
              clampedY = max 0 (min newViewportY (worldHeight s - canvasHeight s))
          in s\<lparr>viewportX := clampedX, viewportY := clampedY\<rparr>)"

text \<open>
  The earlier revision of the client, \<^verbatim>\<open>src/unnamed/part_000\<close>: its constructor has no
  player table and no keyboard state. Its fields carry the suffix \<open>_p0\<close>.
\<close>

record client_p0 =
  worldWidth_p0 :: real
  worldHeight_p0 :: real
  myPlayerId_p0 :: "string option"
  myPlayer_p0 :: "player option"
  avatars_p0 :: "string \<rightharpoonup> avatarData"
  viewportX_p0 :: real
  viewportY_p0 :: real
  ws_p0 :: "readyState option"
  canvasWidth_p0 :: real
  canvasHeight_p0 :: real

text \<open>\<^verbatim>\<open>updateViewport\<close>, \<^verbatim>\<open>src/unnamed/part_000\<close> lines 128-145.\<close>

definition updateViewport_p0 :: "client_p0 \<Rightarrow> client_p0" where
  "updateViewport_p0 t =
     (case myPlayer_p0 t of
        None \<Rightarrow> t
      | Some p \<Rightarrow>
          let centerX = canvasWidth_p0 t / 2;
              centerY = canvasHeight_p0 t / 2;
              newViewportX = player_x p - centerX;
              newViewportY = player_y p - centerY;
              clampedX = max 0 (min newViewportX (worldWidth_p0 t - canvasWidth_p0 t));
              clampedY = max 0 (min newViewportY (worldHeight_p0 t - canvasHeight_p0 t))
          in t\<lparr>viewportX_p0 := clampedX, viewportY_p0 := clampedY\<rparr>)"

text \<open>
  The two clients are given the same input of the viewport computation: the same local
  player, canvas, world size and previous viewport origin.
\<close>

definition same_viewport_input :: "client \<Rightarrow> client_p0 \<Rightarrow> bool" where
  "same_viewport_input s t \<longleftrightarrow>
     myPlayer_p0 t = myPlayer s \<and>
     canvasWidth_p0 t = canvasWidth s \<and> canvasHeight_p0 t = canvasHeight s \<and>
     worldWidth_p0 t = worldWidth s \<and> worldHeight_p0 t = worldHeight s \<and>
     viewportX_p0 t = viewportX s \<and> viewportY_p0 t = viewportY s"

section \<open>Rendering\<close>

text \<open>
  \<^verbatim>\<open>draw\<close>, lines 241-266, repaints the canvas from the current fields and changes none
  of them; the model counts the invocation.
\<close>

definition draw :: "client \<Rightarrow> client" where
  "draw s = s\<lparr>drawCalls := Suc (drawCalls s)\<rparr>"

text \<open>
  \<^verbatim>\<open>drawAvatar\<close>, lines 268-337, up to the point where the image is requested: the result
  is \<open>None\<close> when the function returns without loading an image, and otherwise the
  source assigned to \<^verbatim>\<open>avatarImg.src\<close> together with the flag that decides the
  horizontal flip in the load callback. A frame is falsy when it is absent or the empty
  string.
\<close>

definition drawAvatar :: "client \<Rightarrow> player \<Rightarrow> avatarData \<Rightarrow> (string \<times> bool) option" where
  "drawAvatar s p avatarData =
     (let avatarX = player_x p - viewportX s;
          avatarY = player_y p - viewportY s
      in if avatarX < - 50 \<or> avatarX > canvasWidth s + 50 \<or>
            avatarY < - 50 \<or> avatarY > canvasHeight s + 50
         then None
         else
           let direction = facing p;
               frameIndex = (case animationFrame p of None \<Rightarrow> 0 | Some n \<Rightarrow> n);
               looked_up = frames avatarData direction;
               selected = (if direction = ''west'' then frames avatarData ''east''
                           else looked_up)
           in case selected of
                None \<Rightarrow> None
              | Some fs \<Rightarrow>
                  if frameIndex < length fs \<and> fs ! frameIndex \<noteq> []
                  then Some (fs ! frameIndex, direction = ''west'')
                  else None)"

section \<open>Keyboard input\<close>

text \<open>
  \<^verbatim>\<open>isArrowKey\<close>, lines 80-82, and \<^verbatim>\<open>getDirectionFromKey\<close>, lines 84-92. The
  listeners call the handlers with the four arrow codes only, so the lookup in the
  object literal never reaches a property it inherits; a code outside the table has no
  direction.
\<close>

definition isArrowKey :: "string \<Rightarrow> bool" where
  "isArrowKey code \<longleftrightarrow>
     code \<in> set [''ArrowUp'', ''ArrowDown'', ''ArrowLeft'', ''ArrowRight'']"

definition getDirectionFromKey :: "string \<Rightarrow> string option" where
  "getDirectionFromKey code =
     map_of [(''ArrowUp'', ''up''), (''ArrowDown'', ''down''),
             (''ArrowLeft'', ''left''), (''ArrowRight'', ''right'')] code"

text \<open>
  \<^verbatim>\<open>Set.prototype.add\<close> and \<^verbatim>\<open>delete\<close> on the insertion-ordered list: adding an
  element that is present leaves the set, and its order, as it was.
\<close>

definition set_add :: "string \<Rightarrow> string list \<Rightarrow> string list" where
  "set_add k ks = (if k \<in> set ks then ks else ks @ [k])"

definition set_delete :: "string \<Rightarrow> string list \<Rightarrow> string list" where
  "set_delete k ks = filter (\<lambda>j. j \<noteq> k) ks"

definition ws_open :: "client \<Rightarrow> bool" where
  "ws_open s \<longleftrightarrow> ws s = Some OPEN"

text \<open>\<^verbatim>\<open>sendMoveCommand\<close>, lines 121-130, and \<^verbatim>\<open>sendStopCommand\<close>, lines 132-140.\<close>

definition sendMoveCommand :: "string option \<Rightarrow> client \<Rightarrow> client" where
  "sendMoveCommand direction s =
     (if \<not> ws_open s then s else s\<lparr>sent := sent s @ [Move direction]\<rparr>)"

definition sendStopCommand :: "client \<Rightarrow> client" where
  "sendStopCommand s =
     (if \<not> ws_open s then s else s\<lparr>sent := sent s @ [Stop]\<rparr>)"

text \<open>\<^verbatim>\<open>handleKeyDown\<close>, lines 94-103.\<close>

definition handleKeyDown :: "string \<Rightarrow> client \<Rightarrow> client" where
  "handleKeyDown keyCode s =
     (if \<not> ws_open s then s
      else case getDirectionFromKey keyCode of
             None \<Rightarrow> s
           | Some direction \<Rightarrow>
               sendMoveCommand (Some direction)
                 (s\<lparr>activeKeys := set_add keyCode (activeKeys s),
                    currentDirection := Some direction\<rparr>))"

text \<open>\<^verbatim>\<open>handleKeyUp\<close>, lines 105-119.\<close>

definition handleKeyUp :: "string \<Rightarrow> client \<Rightarrow> client" where
  "handleKeyUp keyCode s =
     (let s1 = s\<lparr>activeKeys := set_delete keyCode (activeKeys s)\<rparr>
      in if length (activeKeys s1) = 0
         then sendStopCommand (s1\<lparr>currentDirection := None\<rparr>)
         else
           let remainingKeys = activeKeys s1;
               lastKey = remainingKeys ! (length remainingKeys - 1);
               s2 = s1\<lparr>currentDirection := getDirectionFromKey lastKey\<rparr>
           in sendMoveCommand (currentDirection s2) s2)"

text \<open>The two listeners of \<^verbatim>\<open>setupKeyboardControls\<close>, lines 62-78.\<close>

datatype key_event = KeyDown string | KeyUp string

fun keyListener :: "client \<Rightarrow> key_event \<Rightarrow> client" where
  "keyListener s (KeyDown code) = (if isArrowKey code then handleKeyDown code s else s)"
| "keyListener s (KeyUp code) = (if isArrowKey code then handleKeyUp code s else s)"

section \<open>Connection and message dispatch\<close>

text \<open>
  The state after the constructor has run \<^verbatim>\<open>init\<close>, for a window of the given inner
  size: the canvas is sized and \<^verbatim>\<open>connectToServer\<close> has created the socket, which is
  still connecting.
\<close>

definition constructor :: "real \<Rightarrow> real \<Rightarrow> client" where
  "constructor innerWidth innerHeight =
     \<lparr>worldWidth = 2048, worldHeight = 2048,
      myPlayerId = None, myPlayer = None,
      allPlayers = Map.empty, avatars = Map.empty,
      viewportX = 0, viewportY = 0,
      activeKeys = [], currentDirection = None,
      ws = Some CONNECTING,
      canvasWidth = innerWidth, canvasHeight = innerHeight,
      sent = [], drawCalls = 0, console = []\<rparr>"

text \<open>\<^verbatim>\<open>joinGame\<close>, lines 168-175, and the \<^verbatim>\<open>onopen\<close> callback, lines 145-148.\<close>

definition joinGame :: "client \<Rightarrow> client" where
  "joinGame s = s\<lparr>sent := sent s @ [Join ''Joe'']\<rparr>"

definition ws_onopen :: "client \<Rightarrow> client" where
  "ws_onopen s =
     joinGame (s\<lparr>ws := Some OPEN,
                 console := console s @ [ConsoleLog ''Connected to game server'']\<rparr>)"

text \<open>The body of the \<^verbatim>\<open>forEach\<close> callback of the \<^verbatim>\<open>players_moved\<close> case, lines 195-203.\<close>

definition movePlayer :: "client \<Rightarrow> string \<times> player option \<Rightarrow> client" where
  "movePlayer s entry =
     (case snd entry of
        None \<Rightarrow> s
      | Some pl \<Rightarrow>
          let s1 = s\<lparr>allPlayers := (allPlayers s)(fst entry \<mapsto> pl)\<rparr>
          in if Some (fst entry) = myPlayerId s1
             then updateViewport (s1\<lparr>myPlayer := Some pl\<rparr>)
             else s1)"

text \<open>\<^verbatim>\<open>handleServerMessage\<close>, lines 177-220.\<close>

fun handleServerMessage :: "message \<Rightarrow> client \<Rightarrow> client" where
  "handleServerMessage (JoinGame success playerId avs pls err) s =
     (if success
      then
        let s1 = s\<lparr>myPlayerId := Some playerId, avatars := avs, allPlayers := pls,
                   myPlayer := pls playerId\<rparr>;
            s2 = draw (updateViewport s1)
        in s2\<lparr>console := console s2 @ [ConsoleLog ''Joined game successfully!'']\<rparr>
      else s\<lparr>console := console s @ [ConsoleError ''Failed to join game:'' err]\<rparr>)"
| "handleServerMessage (PlayersMoved pls) s = draw (foldl movePlayer s pls)"
| "handleServerMessage (PlayerJoined pl av) s =
     draw (s\<lparr>allPlayers := (allPlayers s)(player_id pl \<mapsto> pl),
             avatars := (avatars s)(avatar_name av \<mapsto> av)\<rparr>)"
| "handleServerMessage (PlayerLeft playerId) s =
     draw (s\<lparr>allPlayers := (allPlayers s)(playerId := None)\<rparr>)"
| "handleServerMessage (OtherAction tag) s = s"

section \<open>A concrete session\<close>

text \<open>
  The example of the specification: a window of 800 by 600, the default world of 2048 by
  2048, and a successful join as player \<open>p1\<close> at (1000, 1000). A second player,
  \<open>p7\<close>, stands nearby and faces west; the avatar both use defines an explicit west
  sequence besides the east one.
\<close>

definition joe :: player where
  "joe = \<lparr>player_id = ''p1'', player_x = 1000, player_y = 1000, facing = ''south'',
          animationFrame = Some 0, username = ''Joe'', avatar = ''knight''\<rparr>"

definition ann :: player where
  "ann = \<lparr>player_id = ''p7'', player_x = 900, player_y = 1100, facing = ''west'',
          animationFrame = None, username = ''Ann'', avatar = ''knight''\<rparr>"

definition knight :: avatarData where
  "knight = \<lparr>avatar_name = ''knight'',
             frames = [''south'' \<mapsto> [''s0.png''], ''east'' \<mapsto> [''e0.png'', ''e1.png''],
                       ''west'' \<mapsto> [''w0.png'']]\<rparr>"

definition join_p1 :: message where
  "join_p1 = JoinGame True ''p1'' [''knight'' \<mapsto> knight] [''p1'' \<mapsto> joe, ''p7'' \<mapsto> ann] []"

definition join_p2 :: message where
  "join_p2 = JoinGame True ''p2'' [''knight'' \<mapsto> knight]
               [''p2'' \<mapsto> joe\<lparr>player_id := ''p2''\<rparr>, ''p7'' \<mapsto> ann] []"

definition joined :: client where
  "joined = handleServerMessage join_p1 (ws_onopen (constructor 800 600))"

definition joined_p0 :: client_p0 where
  "joined_p0 =
     \<lparr>worldWidth_p0 = 2048, worldHeight_p0 = 2048,
      myPlayerId_p0 = Some ''p1'', myPlayer_p0 = Some joe,
      avatars_p0 = [''knight'' \<mapsto> knight],
      viewportX_p0 = 600, viewportY_p0 = 700,
      ws_p0 = Some OPEN, canvasWidth_p0 = 800, canvasHeight_p0 = 600\<rparr>"

text \<open>The local player holds the up key, then the left key as well.\<close>

definition held_up_left :: client where
  "held_up_left = foldl keyListener joined [KeyDown ''ArrowUp'', KeyDown ''ArrowLeft'']"

text \<open>Every message except a \<^verbatim>\<open>join_game\<close> whose \<^verbatim>\<open>success\<close> is true.\<close>

fun successful_join :: "message \<Rightarrow> bool" where
  "successful_join (JoinGame success playerId avs pls err) = success"
| "successful_join m = False"

section \<open>Facts shared by the proofs\<close>

text \<open>The fields of the two example states, computed once.\<close>

lemma joined_fields:
  "myPlayerId joined = Some ''p1''"
  "myPlayer joined = Some joe"
  "viewportX joined = 600" "viewportY joined = 700"
  "canvasWidth joined = 800" "canvasHeight joined = 600"
  "worldWidth joined = 2048" "worldHeight joined = 2048"
  "ws joined = Some OPEN" "activeKeys joined = []" "currentDirection joined = None"
  "sent joined = [Join ''Joe'']" "drawCalls joined = 1"
  "allPlayers joined = [''p1'' \<mapsto> joe, ''p7'' \<mapsto> ann]"
  "avatars joined = [''knight'' \<mapsto> knight]"
  by (simp_all add: joined_def join_p1_def ws_onopen_def joinGame_def constructor_def
        updateViewport_def draw_def joe_def Let_def)

lemma held_up_left_fields:
  "ws held_up_left = Some OPEN"
  "activeKeys held_up_left = [''ArrowUp'', ''ArrowLeft'']"
  "currentDirection held_up_left = Some ''left''"
  "sent held_up_left = [Join ''Joe'', Move (Some ''up''), Move (Some ''left'')]"
  by (simp_all add: held_up_left_def isArrowKey_def handleKeyDown_def ws_open_def
        joined_fields getDirectionFromKey_def sendMoveCommand_def set_add_def)

text \<open>What the viewport computation and the per-player update leave alone.\<close>

lemma updateViewport_frame [simp]:
  "myPlayerId (updateViewport s) = myPlayerId s"
  "myPlayer (updateViewport s) = myPlayer s"
  "allPlayers (updateViewport s) = allPlayers s"
  "avatars (updateViewport s) = avatars s"
  "drawCalls (updateViewport s) = drawCalls s"
  "ws (updateViewport s) = ws s"
  by (simp_all add: updateViewport_def Let_def split: option.split)

lemma movePlayer_frame [simp]:
  "myPlayerId (movePlayer s e) = myPlayerId s"
  "drawCalls (movePlayer s e) = drawCalls s"
  by (simp_all add: movePlayer_def Let_def split: option.split)

lemma movePlayer_allPlayers:
  "allPlayers (movePlayer s e) =
     (case snd e of None \<Rightarrow> allPlayers s | Some pl \<Rightarrow> (allPlayers s)(fst e \<mapsto> pl))"
  by (simp add: movePlayer_def Let_def split: option.split)

lemma foldl_movePlayer_frame [simp]:
  "myPlayerId (foldl movePlayer s pls) = myPlayerId s"
  "drawCalls (foldl movePlayer s pls) = drawCalls s"
  by (induction pls arbitrary: s) simp_all

text \<open>
  An id that the payload never maps to a player object keeps its entry through the whole
  loop: induction on the payload, the client generalised.
\<close>

lemma foldl_movePlayer_untouched:
  "\<forall>v. (k, Some v) \<notin> set pls \<Longrightarrow> allPlayers (foldl movePlayer s pls) k = allPlayers s k"
proof (induction pls arbitrary: s)
  case Nil
  show ?case by simp
next
  case (Cons e pls)
  have rest: "\<forall>v. (k, Some v) \<notin> set pls" using Cons.prems by simp
  have here: "allPlayers (movePlayer s e) k = allPlayers s k"
  proof (cases "snd e")
    case None
    then show ?thesis by (simp add: movePlayer_allPlayers)
  next
    case (Some pl)
    have "e = (fst e, Some pl)" using Some by (simp add: prod_eq_iff)
    then have "fst e \<noteq> k" using Cons.prems by (metis list.set_intros(1))
    then show ?thesis using Some by (simp add: movePlayer_allPlayers)
  qed
  show ?case using Cons.IH [OF rest, of "movePlayer s e"] here by simp
qed

lemma last_index: "ks \<noteq> [] \<Longrightarrow> ks ! (length ks - Suc 0) = last ks"
  by (simp add: last_conv_nth)

text \<open>
  Only arrow keys are ever held: the listeners pass nothing else on, and
  \<open>handleKeyDown\<close> records a key only when it has a direction.
\<close>

lemma keyListener_keeps_arrows:
  "\<forall>j \<in> set (activeKeys s). isArrowKey j \<Longrightarrow>
   \<forall>j \<in> set (activeKeys (keyListener s e)). isArrowKey j"
  by (cases e)
     (auto simp: handleKeyDown_def handleKeyUp_def sendMoveCommand_def sendStopCommand_def
        set_add_def set_delete_def Let_def split: option.splits)

lemma held_keys_are_arrows:
  "\<forall>j \<in> set (activeKeys s). isArrowKey j \<Longrightarrow>
   \<forall>j \<in> set (activeKeys (foldl keyListener s evs)). isArrowKey j"
proof (induction evs arbitrary: s)
  case Nil
  then show ?case by simp
next
  case (Cons e evs)
  show ?case
    using Cons.IH [OF keyListener_keeps_arrows [OF Cons.prems, of e]] by simp
qed

section \<open>The viewport stays inside the world\<close>

text \<open>
  C1. For every local player position, canvas size and world size, the origin that
  \<open>updateViewport\<close> computes lies between 0 and \<open>max 0 (world - canvas)\<close> on each
  axis, so it is 0 on an axis where the canvas exceeds the world. Where the world is at
  least as large as the canvas and the centred origin, player position minus half the
  canvas, already lies within the bounds, the player's position on the screen is exactly
  the centre of the canvas.
\<close>

theorem updateViewport_clamped_and_centred:
  assumes "myPlayer s = Some p"
  shows "0 \<le> viewportX (updateViewport s)
       \<and> viewportX (updateViewport s) \<le> max 0 (worldWidth s - canvasWidth s)
       \<and> 0 \<le> viewportY (updateViewport s)
       \<and> viewportY (updateViewport s) \<le> max 0 (worldHeight s - canvasHeight s)
       \<and> (canvasWidth s \<le> worldWidth s
            \<and> 0 \<le> player_x p - canvasWidth s / 2
            \<and> player_x p - canvasWidth s / 2 \<le> worldWidth s - canvasWidth s
          \<longrightarrow> player_x p - viewportX (updateViewport s) = canvasWidth s / 2)
       \<and> (canvasHeight s \<le> worldHeight s
            \<and> 0 \<le> player_y p - canvasHeight s / 2
            \<and> player_y p - canvasHeight s / 2 \<le> worldHeight s - canvasHeight s
          \<longrightarrow> player_y p - viewportY (updateViewport s) = canvasHeight s / 2)"
  using assms by (auto simp: updateViewport_def Let_def)

text \<open>
  The example of the specification: the player at (1000, 1000) on a canvas of 800 by 600
  gives the origin (600, 700) and the screen position (400, 300).
\<close>

theorem updateViewport_clamped_and_centred_witness:
  "myPlayer joined = Some joe
   \<and> canvasWidth joined \<le> worldWidth joined
   \<and> 0 \<le> player_x joe - canvasWidth joined / 2
   \<and> player_x joe - canvasWidth joined / 2 \<le> worldWidth joined - canvasWidth joined
   \<and> canvasHeight joined \<le> worldHeight joined
   \<and> 0 \<le> player_y joe - canvasHeight joined / 2
   \<and> player_y joe - canvasHeight joined / 2 \<le> worldHeight joined - canvasHeight joined
   \<and> viewportX (updateViewport joined) = 600 \<and> viewportY (updateViewport joined) = 700
   \<and> player_x joe - viewportX (updateViewport joined) = 400
   \<and> player_y joe - viewportY (updateViewport joined) = 300"
  using updateViewport_clamped_and_centred [of joined joe]
  by (simp add: joined_fields joe_def)

section \<open>West is the east sequence\<close>

text \<open>
  C2. For a player facing west and any avatar definition, \<open>drawAvatar\<close> takes the
  frame from the avatar's east sequence at the player's animation-frame index, index 0
  when the player has none, and marks it for the horizontal flip. The result does not
  depend on the avatar's west entry: replacing that entry by anything, or removing it,
  gives the same result.
\<close>

theorem drawAvatar_west_selects_east:
  assumes "facing p = ''west''"
  shows "drawAvatar s p a =
           (if player_x p - viewportX s < - 50 \<or> player_x p - viewportX s > canvasWidth s + 50 \<or>
               player_y p - viewportY s < - 50 \<or> player_y p - viewportY s > canvasHeight s + 50
            then None
            else case frames a ''east'' of
                   None \<Rightarrow> None
                 | Some fs \<Rightarrow>
                     let i = (case animationFrame p of None \<Rightarrow> 0 | Some n \<Rightarrow> n)
                     in if i < length fs \<and> fs ! i \<noteq> [] then Some (fs ! i, True) else None)
       \<and> drawAvatar s p (a\<lparr>frames := (frames a)(''west'' := w)\<rparr>) = drawAvatar s p a"
  using assms by (simp add: drawAvatar_def Let_def split: option.split)

theorem drawAvatar_west_selects_east_witness:
  "facing ann = ''west'' \<and> frames knight ''west'' = Some [''w0.png'']
   \<and> animationFrame ann = None
   \<and> drawAvatar joined ann knight = Some (''e0.png'', True)
   \<and> drawAvatar joined ann (knight\<lparr>frames := (frames knight)(''west'' := None)\<rparr>)
       = Some (''e0.png'', True)"
  using drawAvatar_west_selects_east [of ann joined knight None]
  by (simp add: ann_def knight_def joined_fields)

section \<open>Batches of moved players\<close>

text \<open>
  C3. Processing a \<^verbatim>\<open>players_moved\<close> message leaves the player-table entry of an id
  unchanged when the payload gives that id no player object, that is, when its value is
  \<^verbatim>\<open>null\<close> or the id is not mentioned at all; and the whole batch calls \<^verbatim>\<open>draw\<close>
  exactly once.
\<close>

theorem players_moved_skips_null_draws_once:
  assumes "\<forall>v. (k, Some v) \<notin> set pls"
  shows "allPlayers (handleServerMessage (PlayersMoved pls) s) k = allPlayers s k
       \<and> drawCalls (handleServerMessage (PlayersMoved pls) s) = Suc (drawCalls s)"
  using foldl_movePlayer_untouched [OF assms, of s] by (simp add: draw_def)

theorem players_moved_skips_null_draws_once_witness:
  "(\<forall>v. (''p7'', Some v) \<notin> set [(''p7'', None), (''p1'', Some (joe\<lparr>player_x := 1010\<rparr>))])
   \<and> allPlayers (handleServerMessage
        (PlayersMoved [(''p7'', None), (''p1'', Some (joe\<lparr>player_x := 1010\<rparr>))]) joined) ''p7''
       = Some ann
   \<and> drawCalls (handleServerMessage
        (PlayersMoved [(''p7'', None), (''p1'', Some (joe\<lparr>player_x := 1010\<rparr>))]) joined)
       = Suc (drawCalls joined)"
  using players_moved_skips_null_draws_once
    [of "''p7''" "[(''p7'', None), (''p1'', Some (joe\<lparr>player_x := 1010\<rparr>))]" joined]
  by (simp add: joined_fields)

section \<open>Key-down\<close>

text \<open>
  \<open>handleKeyDown\<close> does not look at the held set before it acts. With up and left
  held and left the current direction, a further key-down of the up key, as keyboard
  auto-repeat delivers it, sends another move command and turns the current direction
  to up.
\<close>

theorem repeated_keydown_counterexample:
  "''ArrowUp'' \<in> set (activeKeys held_up_left)
   \<and> sent (handleKeyDown ''ArrowUp'' held_up_left) = sent held_up_left @ [Move (Some ''up'')]
   \<and> currentDirection held_up_left = Some ''left''
   \<and> currentDirection (handleKeyDown ''ArrowUp'' held_up_left) = Some ''up''"
  by (simp add: held_up_left_fields handleKeyDown_def ws_open_def getDirectionFromKey_def
        sendMoveCommand_def set_add_def)

text \<open>
  C4, as amended. Every key-down of a mapped directional key that arrives while the
  channel is open, whether or not the key is already held, puts the key into the held
  set (which stays as it is when the key is already there), makes that key's direction
  the current direction and sends one move command for it. A key-down that arrives
  while the channel is not open, or for a key without a direction, changes nothing and
  sends nothing.
\<close>

theorem handleKeyDown_sends_on_every_mapped_keydown:
  "(ws_open s \<and> getDirectionFromKey k = Some d \<longrightarrow>
      activeKeys (handleKeyDown k s) = set_add k (activeKeys s)
      \<and> (k \<in> set (activeKeys s) \<longrightarrow> activeKeys (handleKeyDown k s) = activeKeys s)
      \<and> currentDirection (handleKeyDown k s) = Some d
      \<and> sent (handleKeyDown k s) = sent s @ [Move (Some d)])
   \<and> (\<not> ws_open s \<or> getDirectionFromKey k = None \<longrightarrow> handleKeyDown k s = s)"
  by (auto simp: handleKeyDown_def sendMoveCommand_def ws_open_def set_add_def)

theorem handleKeyDown_sends_on_every_mapped_keydown_witness:
  "ws_open held_up_left \<and> getDirectionFromKey ''ArrowUp'' = Some ''up''
   \<and> ''ArrowUp'' \<in> set (activeKeys held_up_left)
   \<and> activeKeys (handleKeyDown ''ArrowUp'' held_up_left) = [''ArrowUp'', ''ArrowLeft'']
   \<and> currentDirection (handleKeyDown ''ArrowUp'' held_up_left) = Some ''up''
   \<and> sent (handleKeyDown ''ArrowUp'' held_up_left)
       = [Join ''Joe'', Move (Some ''up''), Move (Some ''left''), Move (Some ''up'')]
   \<and> \<not> ws_open (constructor 800 600)
   \<and> handleKeyDown ''ArrowUp'' (constructor 800 600) = constructor 800 600"
  using handleKeyDown_sends_on_every_mapped_keydown [of held_up_left "''ArrowUp''" "''up''"]
    handleKeyDown_sends_on_every_mapped_keydown [of "constructor 800 600" "''ArrowUp''" "''up''"]
  by (simp add: held_up_left_fields ws_open_def getDirectionFromKey_def constructor_def
        set_add_def)

section \<open>Key-up with keys remaining\<close>

text \<open>
  C5. A key-up of a held key that leaves the held set non-empty removes the key, makes
  the direction of the last remaining key in insertion order the current direction, and
  issues the move command for that direction: \<open>handleKeyUp\<close> ends in
  \<open>sendMoveCommand\<close> with it, which puts the command on the channel when the channel
  is open and drops it otherwise. When the last remaining key is an arrow key the
  direction is a proper one. In particular, from a state with nothing held and the
  channel open, pressing up, pressing left and releasing left leaves up as the current
  direction.
\<close>

theorem handleKeyUp_resolves_last_remaining:
  "(k \<in> set (activeKeys s) \<and> set_delete k (activeKeys s) \<noteq> [] \<longrightarrow>
      activeKeys (handleKeyUp k s) = set_delete k (activeKeys s)
      \<and> currentDirection (handleKeyUp k s)
          = getDirectionFromKey (last (set_delete k (activeKeys s)))
      \<and> handleKeyUp k s
          = sendMoveCommand (getDirectionFromKey (last (set_delete k (activeKeys s))))
              (s\<lparr>activeKeys := set_delete k (activeKeys s),
                 currentDirection := getDirectionFromKey (last (set_delete k (activeKeys s)))\<rparr>)
      \<and> sent (handleKeyUp k s)
          = sent s @ (if ws_open s
                      then [Move (getDirectionFromKey (last (set_delete k (activeKeys s))))]
                      else [])
      \<and> (isArrowKey (last (set_delete k (activeKeys s)))
           \<longrightarrow> currentDirection (handleKeyUp k s) \<noteq> None))
   \<and> (ws_open s \<and> activeKeys s = [] \<longrightarrow>
        currentDirection
          (handleKeyUp ''ArrowLeft'' (handleKeyDown ''ArrowLeft'' (handleKeyDown ''ArrowUp'' s)))
          = Some ''up'')"
proof -
  have dir: "isArrowKey j \<Longrightarrow> getDirectionFromKey j \<noteq> None" for j
    by (auto simp: isArrowKey_def getDirectionFromKey_def)
  have up: "set_delete k (activeKeys s) \<noteq> [] \<Longrightarrow>
      handleKeyUp k s
        = sendMoveCommand (getDirectionFromKey (last (set_delete k (activeKeys s))))
            (s\<lparr>activeKeys := set_delete k (activeKeys s),
               currentDirection := getDirectionFromKey (last (set_delete k (activeKeys s)))\<rparr>)"
    by (simp add: handleKeyUp_def Let_def last_index)
  have example: "ws_open s \<and> activeKeys s = [] \<longrightarrow>
        currentDirection
          (handleKeyUp ''ArrowLeft'' (handleKeyDown ''ArrowLeft'' (handleKeyDown ''ArrowUp'' s)))
          = Some ''up''"
    by (simp add: handleKeyDown_def handleKeyUp_def sendMoveCommand_def ws_open_def
          getDirectionFromKey_def set_add_def set_delete_def Let_def)
  show ?thesis
    using example dir [of "last (set_delete k (activeKeys s))"]
    by (auto simp: up sendMoveCommand_def ws_open_def)
qed

theorem handleKeyUp_resolves_last_remaining_witness:
  "''ArrowLeft'' \<in> set (activeKeys held_up_left)
   \<and> set_delete ''ArrowLeft'' (activeKeys held_up_left) = [''ArrowUp'']
   \<and> isArrowKey ''ArrowUp''
   \<and> ws_open joined \<and> activeKeys joined = []
   \<and> activeKeys (handleKeyUp ''ArrowLeft'' held_up_left) = [''ArrowUp'']
   \<and> currentDirection (handleKeyUp ''ArrowLeft'' held_up_left) = Some ''up''
   \<and> sent (handleKeyUp ''ArrowLeft'' held_up_left) = sent held_up_left @ [Move (Some ''up'')]
   \<and> currentDirection
        (handleKeyUp ''ArrowLeft'' (handleKeyDown ''ArrowLeft'' (handleKeyDown ''ArrowUp'' joined)))
       = Some ''up''"
  using handleKeyUp_resolves_last_remaining [of "''ArrowLeft''" held_up_left]
    handleKeyUp_resolves_last_remaining [of "''ArrowLeft''" joined]
  by (simp add: held_up_left_fields joined_fields set_delete_def isArrowKey_def ws_open_def
        getDirectionFromKey_def sendMoveCommand_def)

section \<open>Stop commands\<close>

text \<open>
  \<open>handleKeyUp\<close> tests whether the held set is empty after the removal, not whether
  the removal emptied it. Right after the join nothing is held, and the key-up of an
  arrow key (one pressed before the channel opened, say, and so never recorded) sends a
  stop command although the held set made no transition.
\<close>

theorem keyup_nothing_held_counterexample:
  "activeKeys joined = []
   \<and> sent (keyListener joined (KeyUp ''ArrowUp'')) = sent joined @ [Stop]"
  by (simp add: joined_fields isArrowKey_def handleKeyUp_def set_delete_def
        sendStopCommand_def ws_open_def Let_def)

text \<open>
  C6, as amended. A key-up issues the stop command exactly when no key is held after the
  released key has been removed, whether or not a key was held before: it then ends in
  one call of \<open>sendStopCommand\<close>, which sends one stop command when the channel is
  open and none otherwise. Releasing the only held key is such a case. A key-up that
  leaves a key held adds no stop command to what has been sent.
\<close>

theorem handleKeyUp_stop_when_nothing_remains:
  "(set_delete k (activeKeys s) = [] \<longrightarrow>
      handleKeyUp k s = sendStopCommand (s\<lparr>activeKeys := [], currentDirection := None\<rparr>)
      \<and> sent (handleKeyUp k s) = sent s @ (if ws_open s then [Stop] else []))
   \<and> (activeKeys s = [k] \<longrightarrow>
        sent (handleKeyUp k s) = sent s @ (if ws_open s then [Stop] else []))
   \<and> (set_delete k (activeKeys s) \<noteq> [] \<longrightarrow>
        Stop \<notin> set (drop (length (sent s)) (sent (handleKeyUp k s)))
        \<and> take (length (sent s)) (sent (handleKeyUp k s)) = sent s)"
  by (auto simp: handleKeyUp_def sendStopCommand_def sendMoveCommand_def set_delete_def
        ws_open_def Let_def)

theorem handleKeyUp_stop_when_nothing_remains_witness:
  "set_delete ''ArrowUp'' (activeKeys joined) = []
   \<and> sent (handleKeyUp ''ArrowUp'' joined) = [Join ''Joe'', Stop]
   \<and> activeKeys (handleKeyDown ''ArrowUp'' joined) = [''ArrowUp'']
   \<and> sent (handleKeyUp ''ArrowUp'' (handleKeyDown ''ArrowUp'' joined))
       = [Join ''Joe'', Move (Some ''up''), Stop]
   \<and> set_delete ''ArrowLeft'' (activeKeys held_up_left) \<noteq> []
   \<and> Stop \<notin> set (drop (length (sent held_up_left)) (sent (handleKeyUp ''ArrowLeft'' held_up_left)))
   \<and> sent (handleKeyUp ''ArrowLeft'' held_up_left)
       = [Join ''Joe'', Move (Some ''up''), Move (Some ''left''), Move (Some ''up'')]"
  using handleKeyUp_stop_when_nothing_remains [of "''ArrowUp''" joined]
    handleKeyUp_stop_when_nothing_remains [of "''ArrowUp''" "handleKeyDown ''ArrowUp'' joined"]
    handleKeyUp_stop_when_nothing_remains [of "''ArrowLeft''" held_up_left]
  by (simp add: joined_fields held_up_left_fields set_delete_def ws_open_def
        handleKeyDown_def getDirectionFromKey_def sendMoveCommand_def sendStopCommand_def
        set_add_def handleKeyUp_def Let_def)

section \<open>The local player id\<close>

text \<open>
  The \<^verbatim>\<open>join_game\<close> case assigns \<^verbatim>\<open>myPlayerId\<close> whenever \<^verbatim>\<open>success\<close> is true. After
  the join as \<open>p1\<close>, a second successful join reply, as the server sends when the
  client has reconnected and joined again, makes \<open>p2\<close> the local player id.
\<close>

theorem second_join_counterexample:
  "myPlayerId joined = Some ''p1''
   \<and> myPlayerId (handleServerMessage join_p2 joined) = Some ''p2''"
  by (simp add: joined_fields join_p2_def Let_def draw_def)

text \<open>
  C7, as amended. Processing any inbound message other than a successful
  \<^verbatim>\<open>join_game\<close> leaves the local player id unchanged, and a \<^verbatim>\<open>player_left\<close> message
  that names a different id leaves the local player's entry of the player table as it
  was.
\<close>

theorem local_id_kept_by_all_but_join:
  "(\<not> successful_join m \<longrightarrow> myPlayerId (handleServerMessage m s) = myPlayerId s)
   \<and> (myPlayerId s = Some me \<and> other \<noteq> me \<longrightarrow>
        allPlayers (handleServerMessage (PlayerLeft other) s) me = allPlayers s me)"
  by (cases m) (simp_all add: draw_def)

theorem local_id_kept_by_all_but_join_witness:
  "\<not> successful_join (PlayersMoved [(''p1'', Some (joe\<lparr>player_x := 1010\<rparr>))])
   \<and> myPlayerId (handleServerMessage
        (PlayersMoved [(''p1'', Some (joe\<lparr>player_x := 1010\<rparr>))]) joined) = Some ''p1''
   \<and> myPlayerId joined = Some ''p1'' \<and> ''p7'' \<noteq> ''p1''
   \<and> allPlayers (handleServerMessage (PlayerLeft ''p7'') joined) ''p1'' = Some joe
   \<and> allPlayers (handleServerMessage (PlayerLeft ''p7'') joined) ''p7'' = None"
  using local_id_kept_by_all_but_join
    [of "PlayersMoved [(''p1'', Some (joe\<lparr>player_x := 1010\<rparr>))]" joined "''p1''" "''p7''"]
  by (simp add: joined_fields draw_def)

section \<open>A refused join\<close>

text \<open>
  C8. Processing a \<^verbatim>\<open>join_game\<close> message whose \<^verbatim>\<open>success\<close> is false writes the error
  to the console and changes nothing else: the local player id, the local player, the
  player table, the avatar table and the viewport origin are as before, the socket is in
  the state it was in, nothing is sent and nothing is redrawn.
\<close>

theorem failed_join_changes_nothing:
  "handleServerMessage (JoinGame False playerId avs pls err) s
     = s\<lparr>console := console s @ [ConsoleError ''Failed to join game:'' err]\<rparr>
   \<and> myPlayerId (handleServerMessage (JoinGame False playerId avs pls err) s) = myPlayerId s
   \<and> myPlayer (handleServerMessage (JoinGame False playerId avs pls err) s) = myPlayer s
   \<and> allPlayers (handleServerMessage (JoinGame False playerId avs pls err) s) = allPlayers s
   \<and> avatars (handleServerMessage (JoinGame False playerId avs pls err) s) = avatars s
   \<and> viewportX (handleServerMessage (JoinGame False playerId avs pls err) s) = viewportX s
   \<and> viewportY (handleServerMessage (JoinGame False playerId avs pls err) s) = viewportY s
   \<and> ws (handleServerMessage (JoinGame False playerId avs pls err) s) = ws s
   \<and> sent (handleServerMessage (JoinGame False playerId avs pls err) s) = sent s
   \<and> drawCalls (handleServerMessage (JoinGame False playerId avs pls err) s) = drawCalls s"
  by simp

theorem failed_join_changes_nothing_witness:
  "myPlayerId (handleServerMessage (JoinGame False [] Map.empty Map.empty ''full'') joined)
     = Some ''p1''
   \<and> ws (handleServerMessage (JoinGame False [] Map.empty Map.empty ''full'') joined)
       = Some OPEN
   \<and> console (handleServerMessage (JoinGame False [] Map.empty Map.empty ''full'') joined)
       = console joined @ [ConsoleError ''Failed to join game:'' ''full'']"
  using failed_join_changes_nothing [of "[]" Map.empty Map.empty "''full''" joined]
  by (simp add: joined_fields)

section \<open>Keys pressed while the channel is closed\<close>

text \<open>
  C9. A key-down that arrives while there is no websocket, or while the websocket is not
  open, returns the client as it was: the held set and the current direction are
  unchanged and nothing is sent.
\<close>

theorem handleKeyDown_closed_channel:
  assumes "ws s = None \<or> (\<exists>r. ws s = Some r \<and> r \<noteq> OPEN)"
  shows "handleKeyDown k s = s
       \<and> activeKeys (handleKeyDown k s) = activeKeys s
       \<and> currentDirection (handleKeyDown k s) = currentDirection s
       \<and> sent (handleKeyDown k s) = sent s"
  using assms by (auto simp: handleKeyDown_def ws_open_def)

theorem handleKeyDown_closed_channel_witness:
  "(ws (constructor 800 600) = None
      \<or> (\<exists>r. ws (constructor 800 600) = Some r \<and> r \<noteq> OPEN))
   \<and> handleKeyDown ''ArrowUp'' (constructor 800 600) = constructor 800 600
   \<and> activeKeys (handleKeyDown ''ArrowUp'' (constructor 800 600)) = []
   \<and> sent (handleKeyDown ''ArrowUp'' (constructor 800 600)) = []"
proof -
  have closed: "ws (constructor 800 600) = None
      \<or> (\<exists>r. ws (constructor 800 600) = Some r \<and> r \<noteq> OPEN)"
    by (simp add: constructor_def)
  show ?thesis
    using closed handleKeyDown_closed_channel [OF closed, of "''ArrowUp''"]
    by (simp add: constructor_def)
qed

section \<open>The two revisions compute the same viewport\<close>

text \<open>
  C10. Given the same local player (or none), canvas size, world size and previous
  origin, \<open>updateViewport\<close> of \<^verbatim>\<open>src/game.js\<close> and \<open>updateViewport\<close> of
  \<^verbatim>\<open>src/unnamed/part_000\<close> leave the same viewport origin; without a local player
  both return with the origin untouched.
\<close>

theorem updateViewport_revisions_agree:
  assumes "same_viewport_input s t"
  shows "viewportX_p0 (updateViewport_p0 t) = viewportX (updateViewport s)
       \<and> viewportY_p0 (updateViewport_p0 t) = viewportY (updateViewport s)
       \<and> same_viewport_input (updateViewport s) (updateViewport_p0 t)"
  using assms
  by (simp add: same_viewport_input_def updateViewport_def updateViewport_p0_def Let_def
        split: option.split)

theorem updateViewport_revisions_agree_witness:
  "same_viewport_input joined joined_p0
   \<and> viewportX_p0 (updateViewport_p0 joined_p0) = 600
   \<and> viewportX (updateViewport joined) = 600
   \<and> viewportY_p0 (updateViewport_p0 joined_p0) = 700
   \<and> viewportY (updateViewport joined) = 700"
proof -
  have same: "same_viewport_input joined joined_p0"
    by (simp add: same_viewport_input_def joined_fields joined_p0_def)
  show ?thesis
    using same updateViewport_revisions_agree [OF same]
    by (simp add: updateViewport_def joined_fields joe_def Let_def)
qed

end
